theory Spec2Isabelle
  imports Complex_Main "HOL-Library.AList"
begin

section \<open>Shared data model\<close>

text \<open>
  Wall-clock readings (\<^verbatim>\<open>time.time()\<close>) and similarity scores are Python floats. They are
  modelled as \<^typ>\<open>real\<close>: rounding is abstracted away, while the exceptional results of a
  NumPy division (not-a-number, infinities) are kept explicit where the matcher divides.
\<close>

type_synonym timestamp = real

subsection \<open>\<^verbatim>\<open>core/alert_system.py\<close>: the \<^verbatim>\<open>AlertEvent\<close> dataclass\<close>

record alert_event =
  ev_camera_id :: int
  ev_camera_name :: string
  ev_face_name :: string
  ev_confidence :: real
  ev_timestamp :: timestamp
  ev_age :: "int option"
  ev_gender :: "string option"
  ev_screenshot_path :: "string option"

text \<open>Python truthiness of an optional integer and of an optional string, as used by
  \<^verbatim>\<open>x if event.age else None\<close>: \<^verbatim>\<open>None\<close>, \<^verbatim>\<open>0\<close> and \<^verbatim>\<open>''\<close> are all falsy.\<close>

fun truthy_int :: "int option \<Rightarrow> bool" where
  "truthy_int None = False"
| "truthy_int (Some n) = (n \<noteq> 0)"

fun truthy_str :: "string option \<Rightarrow> bool" where
  "truthy_str None = False"
| "truthy_str (Some s) = (s \<noteq> [])"


subsection \<open>\<^verbatim>\<open>core/face_detection.py\<close>: the dataclasses \<^verbatim>\<open>Face\<close> and \<^verbatim>\<open>KnownFace\<close>\<close>

text \<open>An image is a matrix of pixels, a list of rows; an embedding is a vector of floats.\<close>

type_synonym image = "nat list list"

record face =
  f_bbox :: "real \<times> real \<times> real \<times> real"
  f_kps :: "(real \<times> real) list"
  f_det_score :: real
  f_embedding :: "real list option"
  f_age :: "int option"
  f_gender :: "string option"
  f_face_img :: "image option"

record known_face =
  kf_name :: string
  kf_embedding :: "real list"
  kf_image_path :: string

subsection \<open>Formatting\<close>





section \<open>\<^verbatim>\<open>core/telegram_manager.py\<close>: the remote notification channel\<close>

text \<open>
  The fields of \<^verbatim>\<open>TelegramManager\<close> that \<^verbatim>\<open>send_alert\<close> reads or writes: whether
  \<^verbatim>\<open>self.bot\<close> is set, \<^verbatim>\<open>self.last_sent\<close> (initially \<open>0\<close>) and \<^verbatim>\<open>self.min_interval\<close>.
\<close>

record telegram_manager =
  tm_bot :: bool
  tm_last_sent :: timestamp
  tm_min_interval :: int

definition TelegramManager_init :: "int \<Rightarrow> telegram_manager" where
  "TelegramManager_init rate_limit =
     \<lparr> tm_bot = False, tm_last_sent = 0, tm_min_interval = rate_limit \<rparr>"

text \<open>
  What lies outside the Python objects: the delivery attempts made so far (one entry for
  each call of \<^verbatim>\<open>send_photo\<close> or \<^verbatim>\<open>send_message\<close> on the bot, with how it ended), the lines of
  \<^verbatim>\<open>failed_alerts.log\<close>, the screenshots moved to \<^verbatim>\<open>failed_alert_images/\<close>, the files
  written by \<^verbatim>\<open>cv2.imwrite\<close> and the number of times the alert sound was started.
\<close>

datatype attempt_outcome = Delivered | TransportError | Crashed

record delivery_attempt =
  da_text :: string
  da_photo :: "string option"
  da_outcome :: attempt_outcome

record world =
  w_attempts :: "delivery_attempt list"
  w_failed_alerts_log :: "string list"
  w_failed_alert_images :: "(string \<times> string) list"
  w_screenshots :: "string list"
  w_sounds_played :: nat

definition empty_world :: world where
  "empty_world = \<lparr> w_attempts = [], w_failed_alerts_log = [], w_failed_alert_images = [],
     w_screenshots = [], w_sounds_played = 0 \<rparr>"

text \<open>
  Everything \<^verbatim>\<open>send_alert\<close> obtains from its environment during one call.
  \<^item> \<open>e_init\<close>: how \<^verbatim>\<open>_initialize_bot\<close> ends when it is run (\<^verbatim>\<open>TelegramError\<close> is caught
    inside it and leaves \<^verbatim>\<open>self.bot = None\<close>; another exception escapes, either from the
    \<^verbatim>\<open>Bot\<close> constructor or, with \<^verbatim>\<open>self.bot\<close> already assigned, from \<^verbatim>\<open>get_me\<close>);
  \<^item> \<open>e_now\<close>: the value of \<^verbatim>\<open>time.time()\<close> read in \<^verbatim>\<open>_send\<close>;
  \<^item> \<open>e_image_exists\<close>, \<open>e_open_ok\<close>: \<^verbatim>\<open>image_path.exists()\<close> and whether opening it works;
  \<^item> \<open>e_send\<close>: how the call on the bot ends;
  \<^item> \<open>e_ctime\<close>, \<open>e_int_time\<close>: \<^verbatim>\<open>time.ctime()\<close> and the digits of \<^verbatim>\<open>int(time.time())\<close>;
  \<^item> \<open>e_log_write_ok\<close>, \<open>e_mkdir_ok\<close>, \<open>e_rename_ok\<close>: whether the fallback's file operations work.
\<close>

datatype init_outcome = InitOk | InitTelegramError | InitCtorRaises | InitGetMeRaises

datatype send_outcome = SendOk | SendTelegramError | SendRaises

record tg_env =
  e_init :: init_outcome
  e_now :: timestamp
  e_image_exists :: bool
  e_open_ok :: bool
  e_send :: send_outcome
  e_ctime :: string
  e_int_time :: string
  e_log_write_ok :: bool
  e_mkdir_ok :: bool
  e_rename_ok :: bool

datatype completion = Returns | Raises

text \<open>\<^verbatim>\<open>run_until_complete(self._initialize_bot())\<close>: \<open>Inl\<close> when an exception escapes.\<close>

fun initialize_bot :: "init_outcome \<Rightarrow> telegram_manager \<Rightarrow> telegram_manager + telegram_manager" where
  "initialize_bot InitOk tm = Inr (tm\<lparr> tm_bot := True \<rparr>)"
| "initialize_bot InitTelegramError tm = Inr (tm\<lparr> tm_bot := False \<rparr>)"
| "initialize_bot InitCtorRaises tm = Inl tm"
| "initialize_bot InitGetMeRaises tm = Inl (tm\<lparr> tm_bot := True \<rparr>)"

text \<open>The rate-limit test of \<^verbatim>\<open>_send\<close>: \<^verbatim>\<open>now - self.last_sent < self.min_interval\<close>.\<close>

definition rate_limited :: "telegram_manager \<Rightarrow> timestamp \<Rightarrow> bool" where
  "rate_limited tm now = (now - tm_last_sent tm < of_int (tm_min_interval tm))"

text \<open>
  The nested coroutine \<^verbatim>\<open>_send\<close>. Past the rate limit it enters the \<^verbatim>\<open>try\<close> block: the
  photo is opened when a path is given and exists, then the method of \<^verbatim>\<open>self.bot\<close> is
  looked up (an \<^verbatim>\<open>AttributeError\<close> when the bot is \<^verbatim>\<open>None\<close>) and called. A failing
  \<^verbatim>\<open>open\<close> and a missing bot raise before anything is sent, so no delivery attempt is
  recorded for them. Only \<^verbatim>\<open>TelegramError\<close> is caught here; \<^verbatim>\<open>self.last_sent\<close> is assigned
  after a send that returned.
\<close>

definition send_coroutine ::
  "tg_env \<Rightarrow> string \<Rightarrow> string option \<Rightarrow> telegram_manager \<times> world
     \<Rightarrow> completion \<times> telegram_manager \<times> world" where
  "send_coroutine env message image_path = (\<lambda>(tm, w).
     if rate_limited tm (e_now env) then (Returns, tm, w)
     else
       (let photo = (case image_path of None \<Rightarrow> None
                     | Some p \<Rightarrow> if e_image_exists env then Some p else None);
            called = (\<lambda>out. w\<lparr> w_attempts := w_attempts w @
                          [\<lparr> da_text = message, da_photo = photo, da_outcome = out \<rparr>] \<rparr>)
        in if photo \<noteq> None \<and> \<not> e_open_ok env then (Raises, tm, w)
           else if \<not> tm_bot tm then (Raises, tm, w)
           else (case e_send env of
                   SendOk \<Rightarrow> (Returns, tm\<lparr> tm_last_sent := e_now env \<rparr>, called Delivered)
                 | SendTelegramError \<Rightarrow> (Returns, tm, called TransportError)
                 | SendRaises \<Rightarrow> (Raises, tm, called Crashed))))"

text \<open>
  The handler \<^verbatim>\<open>except Exception\<close> around \<^verbatim>\<open>run_until_complete(_send())\<close>: a line is
  appended to \<^verbatim>\<open>failed_alerts.log\<close> and, when a path was given, the image is renamed into
  \<^verbatim>\<open>failed_alert_images/\<close>. Failing to write the log or to create the directory is not
  caught; a failing rename is.
\<close>

definition save_alert_locally ::
  "tg_env \<Rightarrow> string \<Rightarrow> string option \<Rightarrow> telegram_manager \<times> world
     \<Rightarrow> completion \<times> telegram_manager \<times> world" where
  "save_alert_locally env message image_path = (\<lambda>(tm, w).
     if \<not> e_log_write_ok env then (Raises, tm, w)
     else
       (let w1 = w\<lparr> w_failed_alerts_log := w_failed_alerts_log w @
                     [e_ctime env @ '': '' @ message @ [CHR 0x0A]] \<rparr>
        in case image_path of
             None \<Rightarrow> (Returns, tm, w1)
           | Some p \<Rightarrow>
               if \<not> e_mkdir_ok env then (Raises, tm, w1)
               else if e_rename_ok env then
                 (Returns, tm, w1\<lparr> w_failed_alert_images := w_failed_alert_images w1 @
                     [(p, ''failed_alert_images/alert_'' @ e_int_time env @ ''.jpg'')] \<rparr>)
               else (Returns, tm, w1)))"

text \<open>\<^verbatim>\<open>TelegramManager.send_alert\<close>.\<close>

definition send_alert ::
  "tg_env \<Rightarrow> string \<Rightarrow> string option \<Rightarrow> telegram_manager \<times> world
     \<Rightarrow> completion \<times> telegram_manager \<times> world" where
  "send_alert env message image_path = (\<lambda>(tm, w).
     case (if tm_bot tm then Inr tm else initialize_bot (e_init env) tm) of
       Inl tm1 \<Rightarrow> (Returns, tm1, w)
     | Inr tm1 \<Rightarrow>
         (case send_coroutine env message image_path (tm1, w) of
            (Returns, tm2, w2) \<Rightarrow> (Returns, tm2, w2)
          | (Raises, tm2, w2) \<Rightarrow> save_alert_locally env message image_path (tm2, w2)))"

text \<open>A sequence of \<^verbatim>\<open>send_alert\<close> calls on the one manager, each with its own
  environment, message and image; the run stops at the first call that raises.\<close>

fun send_alerts ::
  "(tg_env \<times> string \<times> string option) list \<Rightarrow> telegram_manager \<times> world
     \<Rightarrow> completion \<times> telegram_manager \<times> world" where
  "send_alerts [] s = (Returns, s)"
| "send_alerts ((env, message, image_path) # calls) s =
     (case send_alert env message image_path s of
        (Returns, s1) \<Rightarrow> send_alerts calls s1
      | (Raises, s1) \<Rightarrow> (Raises, s1))"

text \<open>An environment in which everything works, read at time \<open>t\<close>.\<close>

definition fair_weather :: "timestamp \<Rightarrow> tg_env" where
  "fair_weather t = \<lparr> e_init = InitOk, e_now = t, e_image_exists = True, e_open_ok = True,
     e_send = SendOk, e_ctime = ''Thu Jan  1 00:00:00 1970'', e_int_time = ''0'',
     e_log_write_ok = True, e_mkdir_ok = True, e_rename_ok = True \<rparr>"

text \<open>Reading the parts of a result. A call is made with the bot connected when
  \<^verbatim>\<open>self.bot\<close> is set already or the lazy \<^verbatim>\<open>_initialize_bot\<close> succeeds; its photo is readable
  when no path is given, the path does not exist (the text is sent alone) or the file
  opens. Last, the number of delivery attempts made by a sequence of calls on a fresh
  manager with a rate limit of five seconds, in particular by two calls at the clock
  readings \<open>t1\<close> and \<open>t2\<close> when everything works.\<close>

definition result_manager :: "completion \<times> telegram_manager \<times> world \<Rightarrow> telegram_manager" where
  "result_manager r = fst (snd r)"

definition result_world :: "completion \<times> telegram_manager \<times> world \<Rightarrow> world" where
  "result_world r = snd (snd r)"

definition bot_connected :: "telegram_manager \<Rightarrow> tg_env \<Rightarrow> bool" where
  "bot_connected tm env = (if tm_bot tm then True else e_init env = InitOk)"

definition photo_readable :: "tg_env \<Rightarrow> string option \<Rightarrow> bool" where
  "photo_readable env image_path =
     (case image_path of
        None \<Rightarrow> True
      | Some p \<Rightarrow> if e_image_exists env then e_open_ok env else True)"

definition attempts_of_calls :: "tg_env list \<Rightarrow> nat" where
  "attempts_of_calls envs =
     length (w_attempts (result_world
       (send_alerts (map (\<lambda>env. (env, ''alert'', None)) envs)
          (TelegramManager_init 5, empty_world))))"

definition attempts_of_two_calls :: "timestamp \<Rightarrow> timestamp \<Rightarrow> nat" where
  "attempts_of_two_calls t1 t2 = attempts_of_calls [fair_weather t1, fair_weather t2]"

section \<open>\<^verbatim>\<open>core/alert_system.py\<close>: the alert dispatcher\<close>

record alert_system =
  as_alert_sound :: string
  as_screenshot_dir :: string
  as_alert_history :: "alert_event list"
  as_alert_enabled :: bool
  as_screenshot_enabled :: bool
  as_telegram :: "telegram_manager option"









text \<open>\<^verbatim>\<open>enable_alerts\<close>, \<^verbatim>\<open>enable_screenshots\<close> and \<^verbatim>\<open>clear_alerts\<close>.\<close>

definition enable_alerts :: "bool \<Rightarrow> alert_system \<Rightarrow> alert_system" where
  "enable_alerts enabled sys = sys\<lparr> as_alert_enabled := enabled \<rparr>"


definition clear_alerts :: "alert_system \<Rightarrow> alert_system" where
  "clear_alerts sys = sys\<lparr> as_alert_history := [] \<rparr>"


section \<open>\<^verbatim>\<open>core/database.py\<close>: the persistent log store\<close>

text \<open>One row of the table \<^verbatim>\<open>face_logs\<close>; a nullable column is an option, \<open>None\<close> being
  SQL \<^verbatim>\<open>NULL\<close>.\<close>

record face_log_row =
  row_id :: nat
  row_timestamp :: real
  row_camera_id :: int
  row_camera_name :: string
  row_face_name :: string
  row_age :: "int option"
  row_gender :: "string option"
  row_confidence :: real
  row_screenshot_path :: "string option"

text \<open>The table together with its \<^verbatim>\<open>AUTOINCREMENT\<close> counter (the largest id ever handed out).\<close>

record face_database =
  face_logs :: "face_log_row list"
  face_logs_seq :: nat

datatype db_error = DatabaseError

text \<open>
  \<^verbatim>\<open>FaceDatabase.log_face_event\<close>. The tuple of bound parameters is built first; the
  \<^verbatim>\<open>INSERT\<close> either succeeds (\<open>insert_ok\<close>) and the new row id is returned, or the
  exception is logged and re-raised with the table untouched.
\<close>

definition bound_age :: "alert_event \<Rightarrow> int option" where
  "bound_age event = (if truthy_int (ev_age event) then ev_age event else None)"

definition bound_gender :: "alert_event \<Rightarrow> string option" where
  "bound_gender event = (if truthy_str (ev_gender event) then ev_gender event else None)"

definition bound_screenshot_path :: "alert_event \<Rightarrow> string option" where
  "bound_screenshot_path event =
     (if truthy_str (ev_screenshot_path event) then ev_screenshot_path event else None)"

definition log_face_event ::
  "bool \<Rightarrow> alert_event \<Rightarrow> face_database \<Rightarrow> db_error + (nat \<times> face_database)" where
  "log_face_event insert_ok event db =
     (if insert_ok then
        (let rid = Suc (face_logs_seq db);
             r = \<lparr> row_id = rid,
                   row_timestamp = ev_timestamp event,
                   row_camera_id = ev_camera_id event,
                   row_camera_name = ev_camera_name event,
                   row_face_name = ev_face_name event,
                   row_age = bound_age event,
                   row_gender = bound_gender event,
                   row_confidence = ev_confidence event,
                   row_screenshot_path = bound_screenshot_path event \<rparr>
         in Inr (rid, db\<lparr> face_logs := face_logs db @ [r], face_logs_seq := rid \<rparr>))
      else Inl DatabaseError)"

section \<open>\<^verbatim>\<open>core/camera_manager.py\<close>: the capture supervisor\<close>

record camera_config =
  cc_id :: int
  cc_name :: string
  cc_source :: string
  cc_enabled :: bool
  cc_width :: int
  cc_height :: int
  cc_fps :: int
  cc_rotate :: int

text \<open>
  The dictionaries of \<^verbatim>\<open>CameraManager\<close> are association lists in insertion order with
  one entry per key; a thread object is known by a number. \<^verbatim>\<open>self.stop_event\<close> is the one
  \<^verbatim>\<open>threading.Event\<close> created in \<^verbatim>\<open>__init__\<close>; every capture thread tests it. A frame
  queue (\<^verbatim>\<open>Queue(maxsize=1)\<close>) is the list of its items.

  Three components describe what is outside the object: \<open>cm_alive\<close> lists the threads that
  were started and have not returned, each with the camera id it was started for;
  \<open>cm_next_thread\<close> numbers the next thread object; \<open>cm_warnings\<close> collects the camera ids
  of the log line "thread did not stop gracefully".
\<close>

record camera_manager =
  cm_cameras :: "(int \<times> camera_config) list"
  cm_capture_threads :: "(int \<times> nat) list"
  cm_stop_event :: bool
  cm_frame_queues :: "(int \<times> image list) list"
  cm_alive :: "(nat \<times> int) list"
  cm_next_thread :: nat
  cm_warnings :: "int list"

text \<open>\<^verbatim>\<open>__init__\<close> with \<^verbatim>\<open>load_config\<close>, from the parsed list of camera entries.\<close>

definition CameraManager_init :: "camera_config list \<Rightarrow> camera_manager" where
  "CameraManager_init configs =
     \<lparr> cm_cameras = fold (\<lambda>c. AList.update (cc_id c) c) configs [],
       cm_capture_threads = [], cm_stop_event = False, cm_frame_queues = [],
       cm_alive = [], cm_next_thread = 0, cm_warnings = [] \<rparr>"

definition is_alive :: "nat \<Rightarrow> camera_manager \<Rightarrow> bool" where
  "is_alive thread s = (thread \<in> set (map fst (cm_alive s)))"

text \<open>
  \<^verbatim>\<open>_cleanup_camera_thread\<close>. While the caller waits in \<^verbatim>\<open>thread.join(timeout=2.0)\<close> the
  event is set; \<open>tests_event t\<close> says that thread \<open>t\<close> reaches its loop test
  \<^verbatim>\<open>while not self.stop_event.is_set()\<close> during that wait, and so returns. The joined thread
  is still alive afterwards when it did not.
\<close>

definition cleanup_camera_thread ::
  "(nat \<Rightarrow> bool) \<Rightarrow> int \<Rightarrow> camera_manager \<Rightarrow> camera_manager" where
  "cleanup_camera_thread tests_event cam_id s =
     (case map_of (cm_capture_threads s) cam_id of
        None \<Rightarrow> s
      | Some thread \<Rightarrow>
          (let s1 = s\<lparr> cm_stop_event := True \<rparr>;
               s2 = s1\<lparr> cm_capture_threads := AList.delete cam_id (cm_capture_threads s1) \<rparr>;
               s3 = s2\<lparr> cm_alive := filter (\<lambda>(t, c). \<not> tests_event t) (cm_alive s2) \<rparr>;
               s4 = (if is_alive thread s3
                     then s3\<lparr> cm_warnings := cm_warnings s3 @ [cam_id] \<rparr> else s3)
           in s4\<lparr> cm_frame_queues := AList.delete cam_id (cm_frame_queues s4) \<rparr>))"

text \<open>\<^verbatim>\<open>start_camera\<close> and \<^verbatim>\<open>stop_camera\<close>, with the returned flag.\<close>

definition start_camera ::
  "(nat \<Rightarrow> bool) \<Rightarrow> int \<Rightarrow> camera_manager \<Rightarrow> bool \<times> camera_manager" where
  "start_camera tests_event cam_id s =
     (case map_of (cm_cameras s) cam_id of
        None \<Rightarrow> (False, s)
      | Some config \<Rightarrow>
          if \<not> cc_enabled config then (False, s)
          else
            (let s1 = (if map_of (cm_capture_threads s) cam_id \<noteq> None
                       then cleanup_camera_thread tests_event cam_id s else s);
                 s2 = s1\<lparr> cm_frame_queues := AList.update cam_id [] (cm_frame_queues s1) \<rparr>;
                 s3 = s2\<lparr> cm_stop_event := False \<rparr>;
                 thread = cm_next_thread s3
             in (True,
                 s3\<lparr> cm_capture_threads := AList.update cam_id thread (cm_capture_threads s3),
                     cm_alive := cm_alive s3 @ [(thread, cam_id)],
                     cm_next_thread := Suc thread \<rparr>)))"

definition stop_camera ::
  "(nat \<Rightarrow> bool) \<Rightarrow> int \<Rightarrow> camera_manager \<Rightarrow> bool \<times> camera_manager" where
  "stop_camera tests_event cam_id s =
     (if map_of (cm_capture_threads s) cam_id \<noteq> None
      then (True, cleanup_camera_thread tests_event cam_id s)
      else (False, s))"

text \<open>\<^verbatim>\<open>start_all_cameras\<close> and \<^verbatim>\<open>stop_all_cameras\<close>.\<close>

definition start_all_cameras :: "(nat \<Rightarrow> bool) \<Rightarrow> camera_manager \<Rightarrow> camera_manager" where
  "start_all_cameras tests_event s =
     fold (\<lambda>(cam_id, config) s'.
             if cc_enabled config then snd (start_camera tests_event cam_id s') else s')
       (cm_cameras s) (s\<lparr> cm_stop_event := False \<rparr>)"

definition stop_all_cameras :: "(nat \<Rightarrow> bool) \<Rightarrow> camera_manager \<Rightarrow> camera_manager" where
  "stop_all_cameras tests_event s =
     s\<lparr> cm_stop_event := True,
        cm_alive := filter (\<lambda>(t, c). \<not> tests_event t) (cm_alive s),
        cm_capture_threads := [],
        cm_frame_queues := [] \<rparr>"

text \<open>
  One step of a live thread running \<^verbatim>\<open>_capture_frames\<close>: the device does not open and the
  thread returns, or the thread comes to its loop test. There it returns when the event is
  set; otherwise it reads a frame, and on success rotates it and puts it into the queue
  found under its camera id, replacing the item that is there. A missing queue raises
  \<^verbatim>\<open>KeyError\<close>, which ends the thread.
\<close>

datatype capture_event = OpenFailed | ReadFailed | ReadOk image

definition rotate_frame :: "int \<Rightarrow> image \<Rightarrow> image" where
  "rotate_frame degrees frame =
     (if degrees = 90 then map rev (transpose frame)
      else if degrees = 180 then rev (map rev frame)
      else if degrees = 270 then rev (transpose frame)
      else frame)"

definition capture_step :: "capture_event \<Rightarrow> nat \<Rightarrow> camera_manager \<Rightarrow> camera_manager" where
  "capture_step ev thread s =
     (case map_of (cm_alive s) thread of
        None \<Rightarrow> s
      | Some cam_id \<Rightarrow>
          (let returned = s\<lparr> cm_alive := filter (\<lambda>(t, c). t \<noteq> thread) (cm_alive s) \<rparr>
           in case ev of
                OpenFailed \<Rightarrow> returned
              | ReadFailed \<Rightarrow> if cm_stop_event s then returned else s
              | ReadOk frame \<Rightarrow>
                  if cm_stop_event s then returned
                  else (case (map_of (cm_cameras s) cam_id, map_of (cm_frame_queues s) cam_id) of
                          (Some config, Some queue) \<Rightarrow>
                            s\<lparr> cm_frame_queues :=
                                 AList.update cam_id [rotate_frame (cc_rotate config) frame]
                                   (cm_frame_queues s) \<rparr>
                        | _ \<Rightarrow> returned)))"

text \<open>\<^verbatim>\<open>get_frame\<close>, \<^verbatim>\<open>get_all_frames\<close> and \<^verbatim>\<open>get_camera_status\<close>.\<close>

definition get_frame :: "int \<Rightarrow> camera_manager \<Rightarrow> image option \<times> camera_manager" where
  "get_frame cam_id s =
     (case map_of (cm_frame_queues s) cam_id of
        None \<Rightarrow> (None, s)
      | Some [] \<Rightarrow> (None, s)
      | Some (frame # rest) \<Rightarrow>
          (Some frame, s\<lparr> cm_frame_queues := AList.update cam_id rest (cm_frame_queues s) \<rparr>))"

fun get_frames_loop ::
  "int list \<Rightarrow> (int \<times> image) list \<Rightarrow> camera_manager \<Rightarrow> (int \<times> image) list \<times> camera_manager" where
  "get_frames_loop [] frames s = (frames, s)"
| "get_frames_loop (cam_id # cam_ids) frames s =
     (case get_frame cam_id s of
        (None, s1) \<Rightarrow> get_frames_loop cam_ids frames s1
      | (Some frame, s1) \<Rightarrow> get_frames_loop cam_ids (AList.update cam_id frame frames) s1)"

definition get_all_frames :: "camera_manager \<Rightarrow> (int \<times> image) list \<times> camera_manager" where
  "get_all_frames s = get_frames_loop (map fst (cm_frame_queues s)) [] s"

record camera_status =
  st_id :: int
  st_name :: string
  st_running :: bool
  st_frame_queue_size :: nat
  st_enabled :: bool

definition get_camera_status :: "int \<Rightarrow> camera_manager \<Rightarrow> camera_status option" where
  "get_camera_status cam_id s =
     (case map_of (cm_cameras s) cam_id of
        None \<Rightarrow> None
      | Some config \<Rightarrow>
          Some \<lparr> st_id = cam_id, st_name = cc_name config,
                 st_running = (map_of (cm_capture_threads s) cam_id \<noteq> None),
                 st_frame_queue_size =
                   (case map_of (cm_frame_queues s) cam_id of None \<Rightarrow> 0 | Some q \<Rightarrow> length q),
                 st_enabled = cc_enabled config \<rparr>)"


definition camera :: "int \<Rightarrow> camera_config" where
  "camera n = \<lparr> cc_id = n, cc_name = ''Camera'', cc_source = ''0'', cc_enabled = True,
     cc_width = 640, cc_height = 480, cc_fps = 30, cc_rotate = 0 \<rparr>"

definition everyone :: "nat \<Rightarrow> bool" where
  "everyone t = True"





definition two_cameras_running :: camera_manager where
  "two_cameras_running =
     snd (start_camera (\<lambda>t. False) 2
       (snd (start_camera (\<lambda>t. False) 1 (CameraManager_init [camera 1, camera 2]))))"

section \<open>\<^verbatim>\<open>core/face_detection.py\<close>: detector, gallery and matcher\<close>

text \<open>
  What the external model returns for one face (\<^verbatim>\<open>self.model.get(image)\<close>): \<open>r_age\<close> is
  \<open>None\<close> when the attribute is missing, \<open>r_sex\<close> is \<open>None\<close> when it is missing or
  \<^verbatim>\<open>None\<close>, and otherwise holds the two class scores. The model itself is a parameter
  \<open>model_get\<close> of the operations below; \<open>None\<close> is a call that raises.
\<close>

record raw_face =
  r_bbox :: "real \<times> real \<times> real \<times> real"
  r_kps :: "(real \<times> real) list"
  r_det_score :: real
  r_embedding :: "real list"
  r_age :: "int option"
  r_sex :: "(real \<times> real) option"

type_synonym face_model = "image \<Rightarrow> raw_face list option"

record face_detector =
  fd_recognition_threshold :: real
  fd_analysis_enabled :: bool
  fd_known_faces :: "known_face list"

subsection \<open>\<^verbatim>\<open>detect_faces\<close>\<close>

text \<open>\<^verbatim>\<open>int(x)\<close> on a float truncates towards zero.\<close>

definition int_of_float :: "real \<Rightarrow> int" where
  "int_of_float x = (if 0 \<le> x then \<lfloor>x\<rfloor> else \<lceil>x\<rceil>)"

definition image_height :: "image \<Rightarrow> int" where
  "image_height img = int (length img)"

definition image_width :: "image \<Rightarrow> int" where
  "image_width img = (case img of [] \<Rightarrow> 0 | row # _ \<Rightarrow> int (length row))"

definition extract_face_image :: "image \<Rightarrow> real \<times> real \<times> real \<times> real \<Rightarrow> image" where
  "extract_face_image img bbox = (case bbox of (bx1, by1, bx2, by2) \<Rightarrow>
     (let x1 = max 0 (int_of_float bx1);
          y1 = max 0 (int_of_float by1);
          x2 = min (image_width img) (int_of_float bx2);
          y2 = min (image_height img) (int_of_float by2)
      in if x1 \<ge> x2 \<or> y1 \<ge> y2 then []
         else map (\<lambda>row. take (nat (x2 - x1)) (drop (nat x1) row))
                (take (nat (y2 - y1)) (drop (nat y1) img))))"

definition get_age :: "face_detector \<Rightarrow> raw_face \<Rightarrow> int option" where
  "get_age fd r = (if \<not> fd_analysis_enabled fd then None else r_age r)"

definition get_gender :: "face_detector \<Rightarrow> raw_face \<Rightarrow> string option" where
  "get_gender fd r =
     (if \<not> fd_analysis_enabled fd then None
      else case r_sex r of
             None \<Rightarrow> None
           | Some (male, female) \<Rightarrow> Some (if male < female then ''Female'' else ''Male''))"

definition detect_faces :: "face_model \<Rightarrow> face_detector \<Rightarrow> image \<Rightarrow> face list" where
  "detect_faces model_get fd img =
     (case model_get img of
        None \<Rightarrow> []
      | Some faces \<Rightarrow>
          map (\<lambda>r. \<lparr> f_bbox = r_bbox r, f_kps = r_kps r, f_det_score = r_det_score r,
                      f_embedding = Some (r_embedding r), f_age = get_age fd r,
                      f_gender = get_gender fd r,
                      f_face_img = Some (extract_face_image img (r_bbox r)) \<rparr>) faces)"

subsection \<open>The gallery: \<^verbatim>\<open>load_known_faces\<close> and \<^verbatim>\<open>add_known_face\<close>\<close>

text \<open>
  A file found by \<^verbatim>\<open>known_faces_dir.glob('*.*')\<close>: its path, stem and suffix as \<^verbatim>\<open>pathlib\<close>
  gives them, and what \<^verbatim>\<open>cv2.imread\<close> makes of it (\<open>None\<close> when it cannot be read). The
  directory is \<open>None\<close> when it does not exist.
\<close>

record face_file =
  ff_path :: string
  ff_stem :: string
  ff_suffix :: string
  ff_image :: "image option"

definition lower_char :: "char \<Rightarrow> char" where
  "lower_char c =
     (case map_of (zip ''ABCDEFGHIJKLMNOPQRSTUVWXYZ'' ''abcdefghijklmnopqrstuvwxyz'') c of
        None \<Rightarrow> c | Some l \<Rightarrow> l)"

definition lower :: "string \<Rightarrow> string" where
  "lower s = map lower_char s"

fun load_faces_loop :: "face_model \<Rightarrow> face_file list \<Rightarrow> known_face list \<Rightarrow> known_face list" where
  "load_faces_loop model_get [] known = known"
| "load_faces_loop model_get (file # files) known =
     (if lower (ff_suffix file) \<notin> set [''.jpg'', ''.jpeg'', ''.png'']
      then load_faces_loop model_get files known
      else case ff_image file of
             None \<Rightarrow> load_faces_loop model_get files known
           | Some img \<Rightarrow>
               (case model_get img of
                  None \<Rightarrow> load_faces_loop model_get files known
                | Some [] \<Rightarrow> load_faces_loop model_get files known
                | Some (r # _) \<Rightarrow>
                    load_faces_loop model_get files
                      (known @ [\<lparr> kf_name = ff_stem file, kf_embedding = r_embedding r,
                                  kf_image_path = ff_path file \<rparr>])))"

definition load_known_faces ::
  "face_model \<Rightarrow> face_file list option \<Rightarrow> face_detector \<Rightarrow> face_detector" where
  "load_known_faces model_get known_faces_dir fd =
     (case known_faces_dir of
        None \<Rightarrow> fd\<lparr> fd_known_faces := [] \<rparr>
      | Some files \<Rightarrow> fd\<lparr> fd_known_faces := load_faces_loop model_get files [] \<rparr>)"

text \<open>
  \<^verbatim>\<open>add_known_face\<close>. The environment says whether \<^verbatim>\<open>save_dir.mkdir\<close> works, gives the
  digits of \<^verbatim>\<open>int(time.time())\<close> and says whether \<^verbatim>\<open>cv2.imwrite\<close> raises (its return value
  is not looked at). The result is the returned flag, the detector and the file written.
  \<^verbatim>\<open>detect_faces\<close> always sets the embedding, so the last case below is never reached.
\<close>

record enroll_env =
  k_mkdir_ok :: bool
  k_int_time :: string
  k_imwrite_raises :: bool

definition add_known_face ::
  "face_model \<Rightarrow> enroll_env \<Rightarrow> image \<Rightarrow> string \<Rightarrow> string \<Rightarrow> face_detector
     \<Rightarrow> bool \<times> face_detector \<times> string option" where
  "add_known_face model_get env img name save_dir fd =
     (if \<not> k_mkdir_ok env then (False, fd, None)
      else case detect_faces model_get fd img of
             [] \<Rightarrow> (False, fd, None)
           | fc # _ \<Rightarrow>
               (let face_path = save_dir @ ''/'' @ name @ ''_'' @ k_int_time env @ ''.jpg''
                in if k_imwrite_raises env then (False, fd, None)
                   else case f_embedding fc of
                          Some e \<Rightarrow>
                            (True,
                             fd\<lparr> fd_known_faces := fd_known_faces fd @
                                   [\<lparr> kf_name = name, kf_embedding = e,
                                      kf_image_path = face_path \<rparr>] \<rparr>,
                             Some face_path)
                        | None \<Rightarrow> (False, fd, Some face_path)))"

subsection \<open>The matcher: \<^verbatim>\<open>recognize_faces\<close>\<close>

text \<open>
  Embeddings are vectors of finite floats, and a finite float is a real number. What
  NumPy's arithmetic returns for them is not fixed here: the four operations that
  \<^verbatim>\<open>recognize_faces\<close> uses are a parameter \<open>ar\<close> of the matcher, so that every statement
  about the matcher holds whatever their rounding is. \<open>fa_dot\<close> is one row of
  \<^verbatim>\<open>np.dot(known_embeddings, face.embedding)\<close>, \<open>fa_norm\<close> is \<^verbatim>\<open>np.linalg.norm\<close> of one
  vector, \<open>fa_mul\<close> and \<open>fa_div\<close> are the product and the quotient of two floats, the
  divisor not zero. Overflow is left out: these results are finite.
\<close>

record float_arith =
  fa_dot :: "real list \<Rightarrow> real list \<Rightarrow> real"
  fa_norm :: "real list \<Rightarrow> real"
  fa_mul :: "real \<Rightarrow> real \<Rightarrow> real"
  fa_div :: "real \<Rightarrow> real \<Rightarrow> real"

text \<open>
  Arithmetic without rounding. Floating-point arithmetic agrees with it on the inputs
  where every intermediate result is itself a float, such as vectors of zeros, ones and
  twos; it is used below on such inputs only.
\<close>

definition exact_arith :: float_arith where
  "exact_arith =
     \<lparr> fa_dot = (\<lambda>a b. sum_list (map2 (*) a b)),
       fa_norm = (\<lambda>v. sqrt (sum_list (map (\<lambda>x. x * x) v))),
       fa_mul = (*),
       fa_div = (/) \<rparr>"

text \<open>
  The result of a NumPy division: a finite number, or one of the exceptional values that
  a division by zero produces (NumPy warns and goes on; nothing is raised). The divisor
  in the matcher is a product of norms, so a zero divisor is the positive zero.
\<close>

datatype npfloat = Fin real | NaN | PosInf | NegInf

definition np_divide :: "float_arith \<Rightarrow> real \<Rightarrow> real \<Rightarrow> npfloat" where
  "np_divide ar a b =
     (if b \<noteq> 0 then Fin (fa_div ar a b)
      else if a = 0 then NaN else if 0 < a then PosInf else NegInf)"

text \<open>The comparison \<open>a < b\<close> of floats: false as soon as one side is not a number.\<close>

fun np_less :: "npfloat \<Rightarrow> npfloat \<Rightarrow> bool" where
  "np_less NaN b = False"
| "np_less a NaN = False"
| "np_less (Fin a) (Fin b) = (a < b)"
| "np_less (Fin a) PosInf = True"
| "np_less (Fin a) NegInf = False"
| "np_less PosInf b = False"
| "np_less NegInf NegInf = False"
| "np_less NegInf b = True"

text \<open>
  \<^verbatim>\<open>np.argmax\<close>: the index of the first largest element, and the index of the first
  not-a-number when there is one. On an empty array it raises (\<open>None\<close>).
\<close>

fun argmax_scan :: "npfloat list \<Rightarrow> nat \<Rightarrow> nat \<Rightarrow> npfloat \<Rightarrow> nat" where
  "argmax_scan [] i best_idx best = best_idx"
| "argmax_scan (x # xs) i best_idx best =
     (if best = NaN then best_idx
      else if x = NaN \<or> np_less best x then argmax_scan xs (Suc i) i x
      else argmax_scan xs (Suc i) best_idx best)"

definition np_argmax :: "npfloat list \<Rightarrow> nat option" where
  "np_argmax xs = (case xs of [] \<Rightarrow> None | x # rest \<Rightarrow> Some (argmax_scan rest 1 0 x))"

text \<open>
  The similarities of one embedding with every gallery embedding:
  \<^verbatim>\<open>np.dot(known_embeddings, e) / (np.linalg.norm(known_embeddings, axis=1) * np.linalg.norm(e))\<close>.
\<close>

definition similarities :: "float_arith \<Rightarrow> real list list \<Rightarrow> real list \<Rightarrow> npfloat list" where
  "similarities ar known_embeddings e =
     map (\<lambda>k. np_divide ar (fa_dot ar k e) (fa_mul ar (fa_norm ar k) (fa_norm ar e)))
       known_embeddings"

datatype np_error = ValueError

type_synonym recognition = "face \<times> known_face option \<times> npfloat"

text \<open>
  The body of the loop of \<^verbatim>\<open>recognize_faces\<close> for one face. \<^verbatim>\<open>np.dot\<close> raises when the
  embedding does not have the length of the gallery's rows.
\<close>

definition recognize_face ::
  "float_arith \<Rightarrow> real \<Rightarrow> known_face list \<Rightarrow> face \<Rightarrow> np_error + recognition" where
  "recognize_face ar threshold known fc =
     (case f_embedding fc of
        None \<Rightarrow> Inr (fc, None, Fin 0)
      | Some e \<Rightarrow>
          if length e = 0 then Inr (fc, None, Fin 0)
          else if \<not> list_all (\<lambda>k. length (kf_embedding k) = length e) known then Inl ValueError
          else
            (let sims = similarities ar (map kf_embedding known) e
             in case np_argmax sims of
                  None \<Rightarrow> Inl ValueError
                | Some max_idx \<Rightarrow>
                    (let max_similarity = sims ! max_idx
                     in if np_less (Fin threshold) max_similarity
                        then Inr (fc, Some (known ! max_idx), max_similarity)
                        else Inr (fc, None, max_similarity))))"

fun recognize_loop ::
  "float_arith \<Rightarrow> real \<Rightarrow> known_face list \<Rightarrow> face list \<Rightarrow> np_error + recognition list" where
  "recognize_loop ar threshold known [] = Inr []"
| "recognize_loop ar threshold known (fc # faces) =
     (case recognize_face ar threshold known fc of
        Inl err \<Rightarrow> Inl err
      | Inr r \<Rightarrow>
          (case recognize_loop ar threshold known faces of
             Inl err \<Rightarrow> Inl err
           | Inr rs \<Rightarrow> Inr (r # rs)))"

text \<open>
  \<^verbatim>\<open>recognize_faces\<close>. An empty gallery gives every face as unmatched. Building the
  matrix \<^verbatim>\<open>np.array([kf.embedding ...])\<close> raises when the gallery's embeddings differ in
  length; any exception in the \<^verbatim>\<open>try\<close> block gives every face as unmatched with \<open>0.0\<close>.
\<close>

definition unmatched :: "face list \<Rightarrow> recognition list" where
  "unmatched faces = map (\<lambda>fc. (fc, None, Fin 0)) faces"

definition recognize_faces :: "float_arith \<Rightarrow> face_detector \<Rightarrow> face list \<Rightarrow> recognition list" where
  "recognize_faces ar fd faces =
     (let known = fd_known_faces fd
      in if known = [] then unmatched faces
         else if \<not> list_all (\<lambda>k. length (kf_embedding k) = length (kf_embedding (hd known))) known
         then unmatched faces
         else case recognize_loop ar (fd_recognition_threshold fd) known faces of
                Inl err \<Rightarrow> unmatched faces
              | Inr results \<Rightarrow> results)"




text \<open>Faces, detectors and gallery entries to run the matcher on.\<close>

definition face_with :: "real list \<Rightarrow> face" where
  "face_with e = \<lparr> f_bbox = (0, 0, 1, 1), f_kps = [], f_det_score = 1, f_embedding = Some e,
     f_age = None, f_gender = None, f_face_img = None \<rparr>"

definition entry :: "string \<Rightarrow> real list \<Rightarrow> known_face" where
  "entry name e = \<lparr> kf_name = name, kf_embedding = e, kf_image_path = name @ ''.jpg'' \<rparr>"

definition detector :: "real \<Rightarrow> known_face list \<Rightarrow> face_detector" where
  "detector threshold known = \<lparr> fd_recognition_threshold = threshold,
     fd_analysis_enabled = True, fd_known_faces = known \<rparr>"

text \<open>A model that finds one face, with embedding \<open>e\<close>, in every image; an image file
  of the known-faces directory; an environment in which enrolment works.\<close>

definition one_face_model :: "real list \<Rightarrow> face_model" where
  "one_face_model e = (\<lambda>img. Some [\<lparr> r_bbox = (0, 0, 1, 1), r_kps = [], r_det_score = 1,
     r_embedding = e, r_age = None, r_sex = None \<rparr>])"

definition image_file :: "string \<Rightarrow> string \<Rightarrow> face_file" where
  "image_file stem suffix = \<lparr> ff_path = ''known_faces/'' @ stem @ suffix, ff_stem = stem,
     ff_suffix = suffix, ff_image = Some [[0]] \<rparr>"

definition enrolment_works :: enroll_env where
  "enrolment_works = \<lparr> k_mkdir_ok = True, k_int_time = ''1700000000'',
     k_imwrite_raises = False \<rparr>"

section \<open>\<^verbatim>\<open>ui/main_window.py\<close>: the driver tick\<close>

text \<open>
  The state of \<^verbatim>\<open>MainWindow\<close> that \<^verbatim>\<open>update\<close> uses: \<^verbatim>\<open>self.processing_interval\<close> and
  the dictionary \<^verbatim>\<open>self.last_processed\<close>.
\<close>

record main_window =
  mw_processing_interval :: real
  mw_last_processed :: "int \<rightharpoonup> timestamp"

text \<open>What a tick does that can be seen from outside: \<^verbatim>\<open>process_frame\<close> is called on a
  frame (detection and recognition run), or a frame is handed to \<^verbatim>\<open>display_frame\<close>.\<close>

datatype ui_event = Detection int image | Display int image

fun event_camera :: "ui_event \<Rightarrow> int" where
  "event_camera (Detection cam_id frame) = cam_id"
| "event_camera (Display cam_id frame) = cam_id"

fun is_detection :: "ui_event \<Rightarrow> bool" where
  "is_detection (Detection cam_id frame) = True"
| "is_detection (Display cam_id frame) = False"

text \<open>\<^verbatim>\<open>self.last_processed.get(cam_id, 0)\<close>.\<close>

definition last_time :: "main_window \<Rightarrow> int \<Rightarrow> timestamp" where
  "last_time mw cam_id = (case mw_last_processed mw cam_id of None \<Rightarrow> 0 | Some t \<Rightarrow> t)"

text \<open>
  The loop of \<^verbatim>\<open>MainWindow.update\<close> over \<^verbatim>\<open>frames.items()\<close>. Each item comes with the
  value of \<^verbatim>\<open>time.time()\<close> read in its iteration. \<open>process_frame\<close> stands for the annotated
  frame that \<^verbatim>\<open>process_frame\<close> returns; it and \<^verbatim>\<open>display_frame\<close> catch their own
  exceptions, so every iteration runs to its end.
\<close>

fun update_frames ::
  "(int \<Rightarrow> image \<Rightarrow> image) \<Rightarrow> (int \<times> image option \<times> timestamp) list \<Rightarrow> main_window
     \<Rightarrow> main_window \<times> ui_event list" where
  "update_frames process_frame [] mw = (mw, [])"
| "update_frames process_frame ((cam_id, None, current_time) # rest) mw =
     update_frames process_frame rest mw"
| "update_frames process_frame ((cam_id, Some frame, current_time) # rest) mw =
     (if current_time - last_time mw cam_id < mw_processing_interval mw then
        (let (mw1, events) = update_frames process_frame rest mw
         in (mw1, Display cam_id frame # events))
      else
        (let (mw1, events) =
               update_frames process_frame rest
                 (mw\<lparr> mw_last_processed := (mw_last_processed mw)(cam_id \<mapsto> current_time) \<rparr>)
         in (mw1, Detection cam_id frame # Display cam_id (process_frame cam_id frame) # events)))"

text \<open>\<^verbatim>\<open>update_processing_interval\<close>: the spin box gives milliseconds.\<close>

definition update_processing_interval :: "int \<Rightarrow> main_window \<Rightarrow> main_window" where
  "update_processing_interval v mw = mw\<lparr> mw_processing_interval := of_int v / 1000 \<rparr>"

section \<open>Properties of the notification channel\<close>

lemma send_alert_connected:
  assumes "bot_connected tm env" and "photo_readable env image_path"
  shows "length (w_attempts (result_world (send_alert env message image_path (tm, w))))
           = length (w_attempts w) +
             (if e_now env - tm_last_sent tm \<ge> of_int (tm_min_interval tm) then 1 else 0)"
    and "tm_last_sent (result_manager (send_alert env message image_path (tm, w)))
           = (if e_now env - tm_last_sent tm \<ge> of_int (tm_min_interval tm)
                \<and> e_send env = SendOk
              then e_now env else tm_last_sent tm)"
  using assms
  by (auto simp add: send_alert_def bot_connected_def photo_readable_def send_coroutine_def
        save_alert_locally_def rate_limited_def result_world_def result_manager_def Let_def
        split: send_outcome.splits option.splits if_splits)

lemma attempts_of_two_calls_spaced:
  assumes "5 \<le> t"
  shows "attempts_of_two_calls t (t + 3) = 1" "attempts_of_two_calls t (t + 6) = 2"
  using assms
  by (simp_all add: attempts_of_two_calls_def attempts_of_calls_def fair_weather_def
        TelegramManager_init_def empty_world_def send_alert_def send_coroutine_def
        rate_limited_def result_world_def)

text \<open>
  Claim C1, as stated, on two calls for which the interval has long passed
  (\<open>now - last_sent = 1700000000 \<ge> 5\<close>) and no delivery attempt is made. In the first the
  manager is fresh and the lazy initialisation fails with a \<^verbatim>\<open>TelegramError\<close> (the network
  is down): \<^verbatim>\<open>self.bot\<close> stays \<^verbatim>\<open>None\<close>, \<^verbatim>\<open>_send\<close> passes the rate limit and raises on
  \<^verbatim>\<open>self.bot.send_message\<close> before anything is sent; the alert goes to the fallback log.
  In the second the bot is connected and the screenshot exists but cannot be opened:
  \<^verbatim>\<open>open\<close> raises before \<^verbatim>\<open>send_photo\<close> is called.
\<close>

theorem delivery_attempt_rule_counterexample:
  "e_now ((fair_weather 1700000000)\<lparr> e_init := InitTelegramError \<rparr>)
       - tm_last_sent (TelegramManager_init 5) \<ge> of_int (tm_min_interval (TelegramManager_init 5))
   \<and> send_alert ((fair_weather 1700000000)\<lparr> e_init := InitTelegramError \<rparr>) ''alert'' None
        (TelegramManager_init 5, empty_world)
     = (Returns, TelegramManager_init 5,
        empty_world\<lparr> w_failed_alerts_log := [''Thu Jan  1 00:00:00 1970: alert'' @ [CHR 0x0A]] \<rparr>)
   \<and> w_attempts (result_world
        (send_alert ((fair_weather 1700000000)\<lparr> e_init := InitTelegramError \<rparr>) ''alert'' None
           (TelegramManager_init 5, empty_world))) = []
   \<and> w_attempts (result_world
        (send_alert ((fair_weather 1700000000)\<lparr> e_open_ok := False \<rparr>) ''alert''
           (Some ''screenshots/shot.jpg'')
           ((TelegramManager_init 5)\<lparr> tm_bot := True \<rparr>, empty_world))) = []"
  by (simp add: fair_weather_def TelegramManager_init_def empty_world_def send_alert_def
        send_coroutine_def save_alert_locally_def rate_limited_def result_world_def)

text \<open>
  Claim C1, amended. For a call made with the bot connected and a photo that is readable,
  a delivery attempt is made if and only if \<open>now - last_sent \<ge> min_interval\<close> at the
  moment of the call; \<open>last_sent\<close> becomes \<open>now\<close> when the attempt was made and the send
  succeeded, and is left as it was otherwise (a skipped or a failed attempt). In
  particular, with a minimum interval of five seconds, \<open>last_sent\<close> at its initial value
  and a transport that works, two calls three seconds apart make exactly one delivery
  attempt and two calls six seconds apart make two; \<open>t\<close> is the clock reading of the first
  call, and a reading of \<^verbatim>\<open>time.time()\<close> is beyond \<open>5\<close>.
\<close>

theorem send_alert_rate_limit:
  assumes "bot_connected tm env" and "photo_readable env image_path" and "5 \<le> t"
  shows "length (w_attempts (result_world (send_alert env message image_path (tm, w))))
           = length (w_attempts w) +
             (if e_now env - tm_last_sent tm \<ge> of_int (tm_min_interval tm) then 1 else 0)
       \<and> tm_last_sent (result_manager (send_alert env message image_path (tm, w)))
           = (if e_now env - tm_last_sent tm \<ge> of_int (tm_min_interval tm)
                \<and> e_send env = SendOk
              then e_now env else tm_last_sent tm)
       \<and> attempts_of_two_calls t (t + 3) = 1 \<and> attempts_of_two_calls t (t + 6) = 2"
  using send_alert_connected [OF assms(1,2)] attempts_of_two_calls_spaced [OF assms(3)]
  by simp

theorem send_alert_rate_limit_witness:
  "bot_connected (TelegramManager_init 5) (fair_weather 1700000000)
   \<and> photo_readable (fair_weather 1700000000) (Some ''screenshots/shot.jpg'')
   \<and> (5::real) \<le> 1700000000
   \<and> length (w_attempts (result_world
        (send_alert (fair_weather 1700000000) ''alert'' (Some ''screenshots/shot.jpg'')
           (TelegramManager_init 5, empty_world)))) = 1
   \<and> tm_last_sent (result_manager
        (send_alert (fair_weather 1700000000) ''alert'' (Some ''screenshots/shot.jpg'')
           (TelegramManager_init 5, empty_world))) = 1700000000
   \<and> length (w_attempts (result_world
        (send_alert (fair_weather 1700000003) ''alert'' None
           (\<lparr> tm_bot = True, tm_last_sent = 1700000000, tm_min_interval = 5 \<rparr>,
            empty_world)))) = 0
   \<and> tm_last_sent (result_manager
        (send_alert (fair_weather 1700000003) ''alert'' None
           (\<lparr> tm_bot = True, tm_last_sent = 1700000000, tm_min_interval = 5 \<rparr>,
            empty_world))) = 1700000000
   \<and> attempts_of_two_calls 1700000000 1700000003 = 1
   \<and> attempts_of_two_calls 1700000000 1700000006 = 2"
proof -
  have h1: "bot_connected (TelegramManager_init 5) (fair_weather 1700000000)"
    by (simp add: bot_connected_def fair_weather_def)
  have h2: "photo_readable (fair_weather 1700000000) (Some ''screenshots/shot.jpg'')"
    by (simp add: photo_readable_def fair_weather_def)
  have h3: "(5::real) \<le> 1700000000" by simp
  have k1: "bot_connected \<lparr> tm_bot = True, tm_last_sent = 1700000000, tm_min_interval = 5 \<rparr>
      (fair_weather 1700000003)"
    by (simp add: bot_connected_def)
  have k2: "photo_readable (fair_weather 1700000003) None"
    by (simp add: photo_readable_def)
  show ?thesis
    using h1 h2 h3
      send_alert_rate_limit [OF h1 h2 h3, of "''alert''" empty_world]
      send_alert_rate_limit [OF k1 k2 h3, of "''alert''" empty_world]
    by (simp add: TelegramManager_init_def fair_weather_def empty_world_def)
qed

text \<open>
  Claim C2 at a transport failure. The bot is connected, the rate limit has passed and the
  send raises \<^verbatim>\<open>TelegramError\<close>: the handler inside \<^verbatim>\<open>_send\<close> logs it and returns, so the
  fallback handler of \<^verbatim>\<open>send_alert\<close> never runs. The attempt is recorded as a transport
  error, \<open>last_sent\<close> keeps its value, and neither \<^verbatim>\<open>failed_alerts.log\<close> nor
  \<^verbatim>\<open>failed_alert_images/\<close> receives anything. The fallback does run when the send raises
  an exception that is not a \<^verbatim>\<open>TelegramError\<close>.
\<close>

theorem send_alert_transport_error_not_saved:
  "send_alert ((fair_weather 10)\<lparr> e_send := SendTelegramError \<rparr>) ''Face detected''
      (Some ''screenshots/shot.jpg'') (TelegramManager_init 5, empty_world)
   = (Returns,
      \<lparr> tm_bot = True, tm_last_sent = 0, tm_min_interval = 5 \<rparr>,
      \<lparr> w_attempts = [\<lparr> da_text = ''Face detected'', da_photo = Some ''screenshots/shot.jpg'',
                        da_outcome = TransportError \<rparr>],
        w_failed_alerts_log = [], w_failed_alert_images = [],
        w_screenshots = [], w_sounds_played = 0 \<rparr>)
   \<and> send_alert ((fair_weather 10)\<lparr> e_send := SendRaises,
        e_ctime := ''Thu Jan  1 00:00:10 1970'', e_int_time := ''10'' \<rparr>) ''Face detected''
      (Some ''screenshots/shot.jpg'') (TelegramManager_init 5, empty_world)
   = (Returns,
      \<lparr> tm_bot = True, tm_last_sent = 0, tm_min_interval = 5 \<rparr>,
      \<lparr> w_attempts = [\<lparr> da_text = ''Face detected'', da_photo = Some ''screenshots/shot.jpg'',
                        da_outcome = Crashed \<rparr>],
        w_failed_alerts_log = [''Thu Jan  1 00:00:10 1970: Face detected'' @ [CHR 0x0A]],
        w_failed_alert_images =
          [(''screenshots/shot.jpg'', ''failed_alert_images/alert_10.jpg'')],
        w_screenshots = [], w_sounds_played = 0 \<rparr>)"
  by (simp add: fair_weather_def TelegramManager_init_def empty_world_def send_alert_def
        send_coroutine_def save_alert_locally_def rate_limited_def)

section \<open>Properties of the alert dispatcher\<close>





section \<open>Properties of the log store\<close>

text \<open>
  Claim C10. Appending an alert event whose age is \<open>0\<close> (and likewise whose gender is the
  empty string) stores \<^verbatim>\<open>NULL\<close> in that column: the whole outcome of the call (returned row
  id and resulting table) is the same as for the event with no age estimate and no gender,
  and the row that was appended has both columns absent.
\<close>

theorem log_face_event_zero_age_is_null:
  "log_face_event ok (event\<lparr> ev_age := Some 0, ev_gender := Some [] \<rparr>) db
     = log_face_event ok (event\<lparr> ev_age := None, ev_gender := None \<rparr>) db
   \<and> log_face_event ok (event\<lparr> ev_age := Some 0 \<rparr>) db
     = log_face_event ok (event\<lparr> ev_age := None \<rparr>) db
   \<and> log_face_event ok (event\<lparr> ev_gender := Some [] \<rparr>) db
     = log_face_event ok (event\<lparr> ev_gender := None \<rparr>) db
   \<and> map_sum id (\<lambda>(rid, db'). (row_age (last (face_logs db')), row_gender (last (face_logs db'))))
        (log_face_event True (event\<lparr> ev_age := Some 0, ev_gender := Some [] \<rparr>) db)
     = Inr (None, None)"
  by (simp add: log_face_event_def bound_age_def bound_gender_def bound_screenshot_path_def Let_def)

section \<open>Properties of the driver tick\<close>

lemma update_frames_interval:
  "mw_processing_interval (fst (update_frames p frames mw)) = mw_processing_interval mw"
  by (induction p frames mw rule: update_frames.induct) (simp_all add: case_prod_beta)

lemma update_frames_other_time:
  "cam \<notin> fst ` set frames \<Longrightarrow>
     mw_last_processed (fst (update_frames p frames mw)) cam = mw_last_processed mw cam"
  by (induction p frames mw rule: update_frames.induct) (simp_all add: case_prod_beta)

lemma update_frames_other_events:
  "cam \<notin> fst ` set frames \<Longrightarrow> e \<in> set (snd (update_frames p frames mw)) \<Longrightarrow>
     event_camera e \<noteq> cam"
  by (induction p frames mw rule: update_frames.induct)
     (auto simp add: case_prod_beta split: if_splits)

lemma update_frames_changed:
  "mw_last_processed (fst (update_frames p frames mw)) cam \<noteq> mw_last_processed mw cam \<Longrightarrow>
     \<exists>fr. Detection cam fr \<in> set (snd (update_frames p frames mw))"
proof (induction p frames mw rule: update_frames.induct)
  case (3 p cam_id frame current_time rest mw)
  show ?case
  proof (cases "current_time - last_time mw cam_id < mw_processing_interval mw")
    case True
    with 3 show ?thesis by (auto simp add: case_prod_beta)
  next
    case False
    show ?thesis
    proof (cases "cam = cam_id")
      case True
      with False show ?thesis by (auto simp add: case_prod_beta)
    next
      case ne: False
      with False 3 show ?thesis by (auto simp add: case_prod_beta)
    qed
  qed
qed auto

lemma update_frames_gate:
  assumes "distinct (map fst frames)" and "(cam, Some frame, t) \<in> set frames"
  shows "((\<exists>fr. Detection cam fr \<in> set (snd (update_frames p frames mw)))
            \<longleftrightarrow> t - last_time mw cam \<ge> mw_processing_interval mw)
       \<and> Display cam (if t - last_time mw cam \<ge> mw_processing_interval mw then p cam frame else frame)
            \<in> set (snd (update_frames p frames mw))
       \<and> mw_last_processed (fst (update_frames p frames mw)) cam
            = (if t - last_time mw cam \<ge> mw_processing_interval mw then Some t
               else mw_last_processed mw cam)"
  using assms
proof (induction p frames mw rule: update_frames.induct)
  case (1 p mw)
  then show ?case by simp
next
  case (2 p cam_id current_time rest mw)
  then have "cam \<noteq> cam_id" by force
  with 2 show ?case by auto
next
  case (3 p cam_id fr current_time rest mw)
  show ?case
  proof (cases "cam = cam_id")
    case True
    with 3 have eq: "fr = frame" "current_time = t" and notin: "cam \<notin> fst ` set rest"
      by force+
    have no: "\<And>m fr'. Detection cam fr' \<notin> set (snd (update_frames p rest m))"
      using update_frames_other_events [OF notin] by fastforce
    show ?thesis
      using update_frames_other_time [OF notin, of p] no True eq
      by (simp add: case_prod_beta)
  next
    case False
    with 3 have mem: "(cam, Some frame, t) \<in> set rest" and d: "distinct (map fst rest)" by auto
    show ?thesis
    proof (cases "current_time - last_time mw cam_id < mw_processing_interval mw")
      case True
      then show ?thesis using 3(1) [OF True d mem] False by (simp add: case_prod_beta)
    next
      case nl: False
      then show ?thesis using 3(2) [OF nl d mem] False
        by (simp add: case_prod_beta last_time_def)
    qed
  qed
qed

text \<open>
  Claim C8. In one tick over the frames of distinct cameras, for a camera \<open>cam\<close> that has
  a frame, read at time \<open>t\<close>: detection runs on it if and only if \<open>t\<close> minus the time
  stored for the camera in the last-processed dictionary (\<open>0\<close> when the camera has no
  entry) is at least the processing interval; the frame is displayed in either case
  (annotated when detection ran, as it came otherwise); the camera's entry becomes \<open>t\<close>
  when detection ran and keeps its value otherwise. For every camera, with or without a
  frame, an entry that changed in the tick means that detection ran for that camera in
  the tick.
\<close>

theorem update_detection_gate:
  assumes "distinct (map fst frames)" and "(cam, Some frame, t) \<in> set frames"
  shows "((\<exists>fr. Detection cam fr \<in> set (snd (update_frames p frames mw)))
            \<longleftrightarrow> t - (case mw_last_processed mw cam of None \<Rightarrow> 0 | Some l \<Rightarrow> l)
                  \<ge> mw_processing_interval mw)
       \<and> Display cam (if t - (case mw_last_processed mw cam of None \<Rightarrow> 0 | Some l \<Rightarrow> l)
                            \<ge> mw_processing_interval mw
                       then p cam frame else frame)
            \<in> set (snd (update_frames p frames mw))
       \<and> mw_last_processed (fst (update_frames p frames mw)) cam
            = (if t - (case mw_last_processed mw cam of None \<Rightarrow> 0 | Some l \<Rightarrow> l)
                    \<ge> mw_processing_interval mw
               then Some t else mw_last_processed mw cam)
       \<and> (\<forall>c. mw_last_processed (fst (update_frames p frames mw)) c \<noteq> mw_last_processed mw c
              \<longrightarrow> (\<exists>fr. Detection c fr \<in> set (snd (update_frames p frames mw))))"
  using update_frames_gate [OF assms, of p mw] update_frames_changed [of p frames mw]
  unfolding last_time_def
  by (intro conjI) blast+

text \<open>
  A tick with three cameras and a processing interval of \<open>5\<close>: camera \<open>1\<close> was processed at
  \<open>8\<close> and has a frame at \<open>10\<close>, which is displayed without detection; camera \<open>2\<close> was
  never processed and camera \<open>3\<close> was processed at \<open>2\<close>, and both have a frame at \<open>12\<close>, on
  which detection runs.
\<close>

theorem update_detection_gate_witness:
  "distinct (map fst [(1::int, Some [[0::nat]], 10::real), (2, Some [[1]], 12), (3, Some [[2]], 12)])
   \<and> (1, Some [[0]], 10)
        \<in> set [(1::int, Some [[0::nat]], 10::real), (2, Some [[1]], 12), (3, Some [[2]], 12)]
   \<and> (2, Some [[1]], 12)
        \<in> set [(1::int, Some [[0::nat]], 10::real), (2, Some [[1]], 12), (3, Some [[2]], 12)]
   \<and> (3, Some [[2]], 12)
        \<in> set [(1::int, Some [[0::nat]], 10::real), (2, Some [[1]], 12), (3, Some [[2]], 12)]
   \<and> (\<nexists>fr. Detection 1 fr \<in> set (snd (update_frames (\<lambda>c f. rev f)
          [(1, Some [[0]], 10), (2, Some [[1]], 12), (3, Some [[2]], 12)]
          \<lparr> mw_processing_interval = 5, mw_last_processed = [1 \<mapsto> 8, 3 \<mapsto> 2] \<rparr>)))
   \<and> Display 1 [[0]] \<in> set (snd (update_frames (\<lambda>c f. rev f)
          [(1, Some [[0]], 10), (2, Some [[1]], 12), (3, Some [[2]], 12)]
          \<lparr> mw_processing_interval = 5, mw_last_processed = [1 \<mapsto> 8, 3 \<mapsto> 2] \<rparr>))
   \<and> mw_last_processed (fst (update_frames (\<lambda>c f. rev f)
          [(1, Some [[0]], 10), (2, Some [[1]], 12), (3, Some [[2]], 12)]
          \<lparr> mw_processing_interval = 5, mw_last_processed = [1 \<mapsto> 8, 3 \<mapsto> 2] \<rparr>)) 1 = Some 8
   \<and> (\<exists>fr. Detection 2 fr \<in> set (snd (update_frames (\<lambda>c f. rev f)
          [(1, Some [[0]], 10), (2, Some [[1]], 12), (3, Some [[2]], 12)]
          \<lparr> mw_processing_interval = 5, mw_last_processed = [1 \<mapsto> 8, 3 \<mapsto> 2] \<rparr>)))
   \<and> mw_last_processed (fst (update_frames (\<lambda>c f. rev f)
          [(1, Some [[0]], 10), (2, Some [[1]], 12), (3, Some [[2]], 12)]
          \<lparr> mw_processing_interval = 5, mw_last_processed = [1 \<mapsto> 8, 3 \<mapsto> 2] \<rparr>)) 2 = Some 12
   \<and> (\<exists>fr. Detection 3 fr \<in> set (snd (update_frames (\<lambda>c f. rev f)
          [(1, Some [[0]], 10), (2, Some [[1]], 12), (3, Some [[2]], 12)]
          \<lparr> mw_processing_interval = 5, mw_last_processed = [1 \<mapsto> 8, 3 \<mapsto> 2] \<rparr>)))
   \<and> mw_last_processed (fst (update_frames (\<lambda>c f. rev f)
          [(1, Some [[0]], 10), (2, Some [[1]], 12), (3, Some [[2]], 12)]
          \<lparr> mw_processing_interval = 5, mw_last_processed = [1 \<mapsto> 8, 3 \<mapsto> 2] \<rparr>)) 3 = Some 12"
proof -
  let ?fs = "[(1::int, Some [[0::nat]], 10::real), (2, Some [[1]], 12), (3, Some [[2]], 12)]"
  let ?mw = "\<lparr> mw_processing_interval = 5, mw_last_processed = [1 \<mapsto> 8, 3 \<mapsto> (2::real)] \<rparr>"
  let ?r = "update_frames (\<lambda>c f. rev f) ?fs ?mw"
  have d: "distinct (map fst ?fs)" by simp
  have m1: "(1, Some [[0]], 10) \<in> set ?fs" by simp
  have m2: "(2, Some [[1]], 12) \<in> set ?fs" by simp
  have m3: "(3, Some [[2]], 12) \<in> set ?fs" by simp
  have g1: "\<not> mw_processing_interval ?mw
             \<le> 10 - (case mw_last_processed ?mw 1 of None \<Rightarrow> 0 | Some l \<Rightarrow> l)"
    by simp
  have g2: "mw_processing_interval ?mw
             \<le> 12 - (case mw_last_processed ?mw 2 of None \<Rightarrow> 0 | Some l \<Rightarrow> l)"
    by simp
  have g3: "mw_processing_interval ?mw
             \<le> 12 - (case mw_last_processed ?mw 3 of None \<Rightarrow> 0 | Some l \<Rightarrow> l)"
    by simp
  have o1: "mw_last_processed ?mw 1 = Some 8" by simp
  note T1 = update_detection_gate [OF d m1, of "\<lambda>c f. rev f" ?mw]
  note T2 = update_detection_gate [OF d m2, of "\<lambda>c f. rev f" ?mw]
  note T3 = update_detection_gate [OF d m3, of "\<lambda>c f. rev f" ?mw]
  from T1 g1 have a1: "\<nexists>fr. Detection 1 fr \<in> set (snd ?r)" by blast
  from T1 have "Display 1 (if mw_processing_interval ?mw
             \<le> 10 - (case mw_last_processed ?mw 1 of None \<Rightarrow> 0 | Some l \<Rightarrow> l)
           then (\<lambda>c f. rev f) 1 [[0]] else [[0]]) \<in> set (snd ?r)" by blast
  with g1 have a2: "Display 1 [[0]] \<in> set (snd ?r)" by (simp only: if_False)
  from T1 have "mw_last_processed (fst ?r) 1
      = (if mw_processing_interval ?mw
             \<le> 10 - (case mw_last_processed ?mw 1 of None \<Rightarrow> 0 | Some l \<Rightarrow> l)
         then Some 10 else mw_last_processed ?mw 1)" by blast
  with g1 o1 have a3: "mw_last_processed (fst ?r) 1 = Some 8" by (simp only: if_False)
  from T2 g2 have b1: "\<exists>fr. Detection 2 fr \<in> set (snd ?r)" by blast
  from T2 have "mw_last_processed (fst ?r) 2
      = (if mw_processing_interval ?mw
             \<le> 12 - (case mw_last_processed ?mw 2 of None \<Rightarrow> 0 | Some l \<Rightarrow> l)
         then Some 12 else mw_last_processed ?mw 2)" by blast
  with g2 have b3: "mw_last_processed (fst ?r) 2 = Some 12" by (simp only: if_True)
  from T3 g3 have c1: "\<exists>fr. Detection 3 fr \<in> set (snd ?r)" by blast
  from T3 have "mw_last_processed (fst ?r) 3
      = (if mw_processing_interval ?mw
             \<le> 12 - (case mw_last_processed ?mw 3 of None \<Rightarrow> 0 | Some l \<Rightarrow> l)
         then Some 12 else mw_last_processed ?mw 3)" by blast
  with g3 have c3: "mw_last_processed (fst ?r) 3 = Some 12" by (simp only: if_True)
  from d m1 m2 m3 a1 a2 a3 b1 b3 c1 c3 show ?thesis by blast
qed

section \<open>Properties of the matcher\<close>












text \<open>
  Claim C4 at a zero vector. Only a missing or an empty embedding is caught before the
  division. For the embedding \<open>(0, 0)\<close> the norm is \<open>0\<close>, the quotient \<open>0 / 0\<close> is formed and
  is not a number; the detection is reported unmatched, with not-a-number as its
  similarity instead of \<open>0.0\<close>. Every operation on this input is exact in floating-point
  arithmetic as well.
\<close>

theorem recognize_faces_zero_vector_nan:
  "recognize_faces exact_arith (detector (1/2) [entry ''alice'' [1, 0]]) [face_with [0, 0]]
     = [(face_with [0, 0], None, NaN)]
   \<and> similarities exact_arith [[1, 0]] [0, 0] = [NaN]
   \<and> recognize_faces exact_arith (detector (1/2) [entry ''alice'' [1, 0]]) [face_with []]
     = [(face_with [], None, Fin 0)]"
  by (simp add: recognize_faces_def detector_def entry_def face_with_def recognize_face_def
        similarities_def np_argmax_def np_divide_def exact_arith_def Let_def)

section \<open>Properties of the gallery\<close>

text \<open>
  Claim C9 on two runs of the code. A known-faces directory holding \<^verbatim>\<open>alice.jpg\<close> and
  \<^verbatim>\<open>alice.PNG\<close>, each showing a face, is loaded into a gallery with two entries named
  \<^verbatim>\<open>alice\<close>: the name is the file's stem and nothing compares it with the names already
  loaded. Enrolling the name \<^verbatim>\<open>alice\<close> twice through \<^verbatim>\<open>add_known_face\<close> likewise appends
  a second entry of that name.
\<close>

theorem gallery_duplicate_names:
  "map kf_name (fd_known_faces
      (load_known_faces (one_face_model [1, 0])
         (Some [image_file ''alice'' ''.jpg'', image_file ''alice'' ''.PNG''])
         (detector (1/2) [])))
     = [''alice'', ''alice'']
   \<and> map kf_name (fd_known_faces (fst (snd
      (add_known_face (one_face_model [1, 0]) enrolment_works [[0]] ''alice'' ''known_faces''
         (fst (snd
           (add_known_face (one_face_model [1, 0]) enrolment_works [[0]] ''alice''
              ''known_faces'' (detector (1/2) []))))))))
     = [''alice'', ''alice'']"
  by (simp add: load_known_faces_def one_face_model_def image_file_def detector_def
        lower_def lower_char_def add_known_face_def enrolment_works_def detect_faces_def
        Let_def)

section \<open>Properties of the capture supervisor\<close>
















text \<open>
  Claim C6 on a run with two cameras. Cameras \<open>1\<close> and \<open>2\<close> run on threads \<open>0\<close> and \<open>1\<close>;
  the event is clear and a loop pass of thread \<open>1\<close> leaves it alive. Stopping camera \<open>1\<close>
  (only its thread \<open>0\<close> comes to the loop test during the join) removes the bookkeeping
  of camera \<open>1\<close> alone, but the event it sets is the one every thread tests and it stays
  set: the next loop pass of thread \<open>1\<close> ends the thread of camera \<open>2\<close>, which the
  supervisor still reports as running. Restarting camera \<open>1\<close> while every thread comes to
  its loop test during the join likewise ends the thread of camera \<open>2\<close>.
\<close>

theorem stop_camera_stops_every_thread:
  "cm_stop_event two_cameras_running = False
   \<and> cm_alive two_cameras_running = [(0, 1), (1, 2)]
   \<and> cm_alive (capture_step (ReadOk [[0]]) 1 two_cameras_running) = [(0, 1), (1, 2)]
   \<and> cm_stop_event (snd (stop_camera (\<lambda>t. t = 0) 1 two_cameras_running)) = True
   \<and> cm_capture_threads (snd (stop_camera (\<lambda>t. t = 0) 1 two_cameras_running)) = [(2, 1)]
   \<and> cm_alive (snd (stop_camera (\<lambda>t. t = 0) 1 two_cameras_running)) = [(1, 2)]
   \<and> cm_alive (capture_step (ReadOk [[0]]) 1
        (snd (stop_camera (\<lambda>t. t = 0) 1 two_cameras_running))) = []
   \<and> map_option st_running (get_camera_status 2 (capture_step (ReadOk [[0]]) 1
        (snd (stop_camera (\<lambda>t. t = 0) 1 two_cameras_running)))) = Some True
   \<and> cm_alive (snd (start_camera everyone 1 two_cameras_running)) = [(2, 1)]
   \<and> cm_capture_threads (snd (start_camera everyone 1 two_cameras_running)) = [(2, 1), (1, 2)]"
  by (simp add: two_cameras_running_def start_camera_def stop_camera_def
        cleanup_camera_thread_def CameraManager_init_def camera_def everyone_def
        capture_step_def get_camera_status_def is_alive_def rotate_frame_def Let_def)

end
